theory Spec2Isabelle
  imports Complex_Main
begin

section \<open>Go strings\<close>

text \<open>
  A Go string is a sequence of bytes; \<^typ>\<open>string\<close> (a list of 8-bit characters) stands
  for it. The exporter handles Azure metric names, units, resource identifiers and
  aggregation names, all ASCII; on ASCII text the rune-wise functions of package
  \<^verbatim>\<open>strings\<close> and \<^verbatim>\<open>regexp\<close> act byte by byte, which is how they are written here.
\<close>

text \<open>\<^verbatim>\<open>strings.Replace(s, old, new, -1)\<close>: every non-overlapping occurrence of
  \<^verbatim>\<open>old\<close>, found from the left, becomes \<^verbatim>\<open>new\<close>; an empty \<^verbatim>\<open>old\<close> matches before every
  character and at the end.\<close>

fun Replace :: "string \<Rightarrow> string \<Rightarrow> string \<Rightarrow> string" where
  "Replace [] old new = (if old = [] then new else [])"
| "Replace (c # s) old new =
     (if old = [] then new @ c # Replace s old new
      else if take (length old) (c # s) = old
        then new @ Replace (drop (length old) (c # s)) old new
        else c # Replace s old new)"

text \<open>\<^verbatim>\<open>strings.ToLower\<close> on ASCII: the letters A to Z move to a to z, every other byte stays.\<close>

definition lowerByte :: "char \<Rightarrow> char" where
  "lowerByte c =
     (if (65::nat) \<le> of_char c \<and> of_char c \<le> (90::nat)
      then char_of (of_char c + (32::nat)) else c)"

definition ToLower :: "string \<Rightarrow> string" where
  "ToLower s = map lowerByte s"

text \<open>The character class of \<^verbatim>\<open>invalidMetricChars = regexp.MustCompile("[^a-zA-Z0-9_:]")\<close>,
  by its complement: the characters the expression does not match.\<close>

definition metricChar :: "char \<Rightarrow> bool" where
  "metricChar c =
     (let n = (of_char c :: nat) in
        (97 \<le> n \<and> n \<le> 122) \<or> (65 \<le> n \<and> n \<le> 90) \<or> (48 \<le> n \<and> n \<le> 57)
        \<or> c = CHR ''_'' \<or> c = CHR '':'')"

text \<open>\<^verbatim>\<open>invalidMetricChars.ReplaceAllString(s, "_")\<close>: the expression matches one character at
  a time, and each match becomes an underscore.\<close>

definition ReplaceInvalid :: "string \<Rightarrow> string" where
  "ReplaceInvalid s = concat (map (\<lambda>c. if metricChar c then [c] else ''_'') s)"

section \<open>Metric names\<close>

text \<open>Lines 59 to 62 of \<^verbatim>\<open>collectResource\<close>, on \<^verbatim>\<open>value.Name.Value\<close> and \<^verbatim>\<open>value.Unit\<close>.\<close>

definition metricName :: "string \<Rightarrow> string \<Rightarrow> string" where
  "metricName nameValue unit =
     (let metricName = Replace nameValue '' '' ''_'';
          metricName = ToLower (metricName @ ''_'' @ unit);
          metricName = Replace metricName ''/'' ''_per_'';
          metricName = ReplaceInvalid metricName
      in metricName)"

section \<open>The metric-values response\<close>

text \<open>
  \<^verbatim>\<open>float64\<close> values are read from the response and handed to the metrics library; the
  exporter never computes with them, so \<^typ>\<open>real\<close> stands for them.
\<close>

type_synonym float64 = real

text \<open>The element of \<^verbatim>\<open>Timeseries[].Data\<close>, after \<^verbatim>\<open>json.Unmarshal\<close>.\<close>

record Data =
  TimeStamp :: string
  Total :: float64
  Average :: float64
  Minimum :: float64
  Maximum :: float64

text \<open>The same element on the wire: a JSON object in which each key may be missing.\<close>

record DataJSON =
  timeStamp :: "string option"
  total :: "float64 option"
  average :: "float64 option"
  minimum :: "float64 option"
  maximum :: "float64 option"

text \<open>\<^verbatim>\<open>json.Unmarshal\<close> into the struct of plain \<^verbatim>\<open>string\<close> and \<^verbatim>\<open>float64\<close> fields: a field
  whose key is missing keeps its zero value.\<close>

definition decodeData :: "DataJSON \<Rightarrow> Data" where
  "decodeData j =
     \<lparr>TimeStamp = (case timeStamp j of None \<Rightarrow> [] | Some s \<Rightarrow> s),
      Total = (case total j of None \<Rightarrow> 0 | Some x \<Rightarrow> x),
      Average = (case average j of None \<Rightarrow> 0 | Some x \<Rightarrow> x),
      Minimum = (case minimum j of None \<Rightarrow> 0 | Some x \<Rightarrow> x),
      Maximum = (case maximum j of None \<Rightarrow> 0 | Some x \<Rightarrow> x)\<rparr>"

record Timeseries =
  Data :: "Data list"

text \<open>An element of \<^verbatim>\<open>AzureMetricValueResponse.Value\<close>; the nested \<^verbatim>\<open>Name\<close> struct is
  flattened into \<open>Name_LocalizedValue\<close> and \<open>Name_Value\<close>.\<close>

record MetricValue =
  Timeseries :: "Timeseries list"
  ID :: string
  Name_LocalizedValue :: string
  Name_Value :: string
  Type :: string
  Unit :: string

text \<open>\<^verbatim>\<open>Value\<close> is a slice that the code compares with \<^verbatim>\<open>nil\<close>: \<open>None\<close> is the nil slice (the
  key was missing or \<^verbatim>\<open>null\<close>), \<open>Some xs\<close> a slice that was allocated, \<open>Some []\<close> being
  what the JSON array \<^verbatim>\<open>[]\<close> decodes to.\<close>

record AzureMetricValueResponse =
  Value :: "MetricValue list option"
  APIError_Code :: string
  APIError_Message :: string

section \<open>Samples\<close>

type_synonym Labels = "string \<rightharpoonup> string"

text \<open>What \<^verbatim>\<open>prometheus.MustNewConstMetric(prometheus.NewDesc(fqName, help, nil, labels),
  prometheus.GaugeValue, v)\<close> builds: always a gauge.\<close>

record Metric =
  fqName :: string
  helpStr :: string
  constLabels :: Labels
  val :: float64

text \<open>\<^verbatim>\<open>model.IsValidMetricName\<close> of the metrics library: not empty, letters, underscore and
  colon anywhere, digits anywhere but first.\<close>

definition isDigit :: "char \<Rightarrow> bool" where
  "isDigit c = ((48::nat) \<le> of_char c \<and> of_char c \<le> (57::nat))"

definition IsValidMetricName :: "string \<Rightarrow> bool" where
  "IsValidMetricName n =
     (case n of [] \<Rightarrow> False
      | b # bs \<Rightarrow> metricChar b \<and> \<not> isDigit b \<and> list_all metricChar bs)"

text \<open>\<^verbatim>\<open>NewDesc\<close> records an error for an invalid name or an empty help text, and
  \<^verbatim>\<open>MustNewConstMetric\<close> panics on a descriptor with an error: \<open>None\<close> is the panic.
  (A release of the library that does not look at the descriptor's error never panics
  here; the properties below are about names that are valid and hold for it as well.)
  The label names come from \<^verbatim>\<open>CreateResourceLabels\<close> and are taken to be valid.\<close>

definition MustNewConstMetric :: "string \<Rightarrow> string \<Rightarrow> Labels \<Rightarrow> float64 \<Rightarrow> Metric option" where
  "MustNewConstMetric name helpText labels v =
     (if IsValidMetricName name \<and> helpText \<noteq> []
      then Some \<lparr>fqName = name, helpStr = helpText, constLabels = labels, val = v\<rparr>
      else None)"

text \<open>Modelled from the spec: \<^verbatim>\<open>hasAggregation\<close> is called by \<^verbatim>\<open>collectResource\<close>, and its body
  is not in the source files. The spec (4.3) has the collector ask for "the configured
  set, or all four kinds if none requested" and emit one sample per kind, "skipping kinds
  not requested".\<close>

definition hasAggregation :: "string list \<Rightarrow> string \<Rightarrow> bool" where
  "hasAggregation aggregations aggregation =
     (if length aggregations = 0 then True else aggregation \<in> set aggregations)"

section \<open>collectResource\<close>

text \<open>
  The channel \<^verbatim>\<open>ch\<close> is the list of metrics sent so far, passed in and returned. A
  run-time panic (an index out of range, a failed \<^verbatim>\<open>Must\<close>) is the result \<open>None\<close>: it
  ends the collection, and what was sent before it is lost with it.
  \<^verbatim>\<open>CreateResourceLabels\<close> is not in the source files: it is the parameter \<open>L\<close>, which
  may panic (\<open>None\<close>) on an identifier it cannot take apart.
\<close>

definition emit :: "Metric list \<Rightarrow> string \<Rightarrow> Labels \<Rightarrow> float64 \<Rightarrow> Metric list option" where
  "emit ch name labels v =
     (case MustNewConstMetric name name labels v of
        None \<Rightarrow> None
      | Some m \<Rightarrow> Some (ch @ [m]))"

text \<open>The body of the loop over \<^verbatim>\<open>metricValueData.Value\<close>, lines 58 to 96.\<close>

definition collectValue ::
  "(string \<Rightarrow> Labels option) \<Rightarrow> string list \<Rightarrow> Metric list \<Rightarrow> MetricValue \<Rightarrow> Metric list option"
where
  "collectValue L aggregations ch v =
     (let name = metricName (Name_Value v) (Unit v) in
      case Timeseries v of
        [] \<Rightarrow> None
      | ts0 # _ \<Rightarrow>
          if length (Data ts0) = 0 then None
          else
            let metricValue = Data ts0 ! (length (Data ts0) - 1) in
            case L (ID v) of
              None \<Rightarrow> None
            | Some labels \<Rightarrow>
                Option.bind
                  (if hasAggregation aggregations ''Total''
                   then emit ch (name @ ''_total'') labels (Total metricValue) else Some ch)
                (\<lambda>ch. Option.bind
                  (if hasAggregation aggregations ''Average''
                   then emit ch (name @ ''_average'') labels (Average metricValue) else Some ch)
                (\<lambda>ch. Option.bind
                  (if hasAggregation aggregations ''Minimum''
                   then emit ch (name @ ''_min'') labels (Minimum metricValue) else Some ch)
                (\<lambda>ch.
                  if hasAggregation aggregations ''Maximum''
                  then emit ch (name @ ''_max'') labels (Maximum metricValue) else Some ch))))"

fun collectValues ::
  "(string \<Rightarrow> Labels option) \<Rightarrow> string list \<Rightarrow> Metric list \<Rightarrow> MetricValue list \<Rightarrow> Metric list option"
where
  "collectValues L aggregations ch [] = Some ch"
| "collectValues L aggregations ch (v # vs) =
     (case collectValue L aggregations ch v of
        None \<Rightarrow> None
      | Some ch' \<Rightarrow> collectValues L aggregations ch' vs)"

text \<open>\<^verbatim>\<open>collectResource\<close> from line 43 on; \<open>metricValueData\<close> is what \<^verbatim>\<open>ac.getMetricValue\<close>
  returned, \<open>Inl\<close> its error. The function has no result in Go: an error or an empty
  response is logged and the function returns, having sent nothing.\<close>

definition collectResource ::
  "(string \<Rightarrow> Labels option) \<Rightarrow> Metric list \<Rightarrow> 'e + AzureMetricValueResponse \<Rightarrow> string list
     \<Rightarrow> Metric list option"
where
  "collectResource L ch metricValueData aggregations =
     (case metricValueData of
        Inl err \<Rightarrow> Some ch
      | Inr d \<Rightarrow>
          (case Value d of
             None \<Rightarrow> Some ch
           | Some vs \<Rightarrow>
               (case vs of
                  [] \<Rightarrow> None
                | v0 # _ \<Rightarrow>
                    (case Timeseries v0 of
                       [] \<Rightarrow> None
                     | ts0 # _ \<Rightarrow>
                         if length (Data ts0) = 0 then Some ch
                         else collectValues L aggregations ch vs))))"

section \<open>Configuration\<close>

text \<open>
  The structs of package \<^verbatim>\<open>config\<close>. Field names are global in a theory, so the fields of
  \<^verbatim>\<open>ResourceGroup\<close> that \<^verbatim>\<open>Resource\<close> has too carry the prefix \<open>RG_\<close>, and each \<^verbatim>\<open>XXX\<close>
  map (the keys of the YAML node that no field took) is named after its struct and
  kept as the list of its keys.
\<close>

record Credentials =
  SubscriptionID :: string
  ClientID :: string
  ClientSecret :: string
  TenantID :: string
  Credentials_XXX :: "string list"

record Resource =
  Name :: string
  Metrics :: "string list"
  Aggregations :: "string list"
  Resource_XXX :: "string list"

record ResourceGroup =
  RG_Name :: string
  ResourceTypes :: "string list"
  ResourceInclude :: "string list"
  ResourceExclude :: "string list"
  RG_Metrics :: "string list"
  RG_Aggregations :: "string list"
  ResourceGroup_XXX :: "string list"

record Config =
  Credentials :: Credentials
  Resources :: "Resource list"
  ResourceGroups :: "ResourceGroup list"
  XXX :: "string list"

text \<open>\<^verbatim>\<open>SafeConfig\<close>: the pointer \<^verbatim>\<open>C\<close> to the configuration in force. The mutex orders
  concurrent accesses and has no part in a sequential model.\<close>

record SafeConfig =
  C :: Config

datatype config_error =
    UnknownFields string "string list"
  | InvalidAggregation string
  | ResourceNameMissing
  | ResourcePathNotRooted string
  | ResourceMetricsMissing
  | GroupNameMissing
  | GroupResourceTypesMissing
  | GroupMetricsMissing
  | RegexpError string

datatype reload_error =
    ErrorReadingConfig
  | ErrorParsingConfig "config_error option"
  | ErrorValidatingConfig config_error

definition checkOverflow :: "string list \<Rightarrow> string \<Rightarrow> config_error option" where
  "checkOverflow m ctx = (if length m > 0 then Some (UnknownFields ctx m) else None)"

text \<open>The four \<^verbatim>\<open>UnmarshalYAML\<close> methods. The YAML library fills the plain struct and calls
  the method of every nested struct on the way, so the checks of the credentials, of
  each resource and of each resource group come before the check of the whole.\<close>

fun firstError :: "config_error option list \<Rightarrow> config_error option" where
  "firstError [] = None"
| "firstError (None # es) = firstError es"
| "firstError (Some e # es) = Some e"

definition UnmarshalYAML :: "Config \<Rightarrow> config_error option" where
  "UnmarshalYAML s =
     firstError
       ([checkOverflow (Credentials_XXX (Credentials s)) ''config'']
        @ map (\<lambda>r. checkOverflow (Resource_XXX r) ''config'') (Resources s)
        @ map (\<lambda>g. checkOverflow (ResourceGroup_XXX g) ''config'') (ResourceGroups s)
        @ [checkOverflow (XXX s) ''config''])"

definition validAggregations :: "string list" where
  "validAggregations = [''Total'', ''Average'', ''Minimum'', ''Maximum'']"

fun validateAggregations :: "string list \<Rightarrow> config_error option" where
  "validateAggregations [] = None"
| "validateAggregations (a # aggregations) =
     (if a \<in> set validAggregations then validateAggregations aggregations
      else Some (InvalidAggregation a))"

text \<open>\<^verbatim>\<open>regexp.Compile\<close> is the parameter \<open>compiles\<close>: whether the expression is well formed.\<close>

fun validateRegexps :: "(string \<Rightarrow> bool) \<Rightarrow> string list \<Rightarrow> config_error option" where
  "validateRegexps compiles [] = None"
| "validateRegexps compiles (rx # rxs) =
     (if compiles rx then validateRegexps compiles rxs else Some (RegexpError rx))"

text \<open>The first loop of \<^verbatim>\<open>Validate\<close>, over \<^verbatim>\<open>c.Resources\<close>.\<close>

fun validateResources :: "Resource list \<Rightarrow> config_error option" where
  "validateResources [] = None"
| "validateResources (t # ts) =
     (case validateAggregations (Aggregations t) of
        Some err \<Rightarrow> Some err
      | None \<Rightarrow>
          if length (Name t) = 0 then Some ResourceNameMissing
          else if take 1 (Name t) \<noteq> ''/'' then Some (ResourcePathNotRooted (Name t))
          else if length (Metrics t) = 0 then Some ResourceMetricsMissing
          else validateResources ts)"

text \<open>The second loop, over \<^verbatim>\<open>c.ResourceGroups\<close>. The source tests \<^verbatim>\<open>len(t.Name) == 0\<close> twice,
  the second time where its message speaks of resource types; the test is kept as written
  and can never fire.\<close>

fun validateResourceGroups :: "(string \<Rightarrow> bool) \<Rightarrow> ResourceGroup list \<Rightarrow> config_error option" where
  "validateResourceGroups compiles [] = None"
| "validateResourceGroups compiles (t # ts) =
     (case validateAggregations (RG_Aggregations t) of
        Some err \<Rightarrow> Some err
      | None \<Rightarrow>
          if length (RG_Name t) = 0 then Some GroupNameMissing
          else if length (RG_Name t) = 0 then Some GroupResourceTypesMissing
          else if length (RG_Metrics t) = 0 then Some GroupMetricsMissing
          else (case validateRegexps compiles (ResourceInclude t @ ResourceExclude t) of
                  Some err \<Rightarrow> Some err
                | None \<Rightarrow> validateResourceGroups compiles ts))"

definition Validate :: "(string \<Rightarrow> bool) \<Rightarrow> Config \<Rightarrow> config_error option" where
  "Validate compiles c =
     (case validateResources (Resources c) of
        Some err \<Rightarrow> Some err
      | None \<Rightarrow> validateResourceGroups compiles (ResourceGroups c))"

text \<open>What \<^verbatim>\<open>ReloadConfig\<close> finds at \<^verbatim>\<open>confFile\<close>: a file that cannot be read, text that is
  not YAML of the configuration's shape, or the plain structs the YAML library decodes.\<close>

datatype conf_file = Unreadable | NotYaml | Yaml Config

text \<open>\<^verbatim>\<open>ReloadConfig\<close> returns the configuration holder with the error (\<open>None\<close> is \<^verbatim>\<open>nil\<close>).\<close>

definition ReloadConfig ::
  "(string \<Rightarrow> bool) \<Rightarrow> SafeConfig \<Rightarrow> conf_file \<Rightarrow> SafeConfig \<times> reload_error option"
where
  "ReloadConfig compiles sc confFile =
     (case confFile of
        Unreadable \<Rightarrow> (sc, Some ErrorReadingConfig)
      | NotYaml \<Rightarrow> (sc, Some (ErrorParsingConfig None))
      | Yaml c \<Rightarrow>
          (case UnmarshalYAML c of
             Some err \<Rightarrow> (sc, Some (ErrorParsingConfig (Some err)))
           | None \<Rightarrow>
               (case Validate compiles c of
                  Some err \<Rightarrow> (sc, Some (ErrorValidatingConfig err))
                | None \<Rightarrow> (sc\<lparr>C := c\<rparr>, None))))"

section \<open>Resource filtering in Collect\<close>

text \<open>\<^verbatim>\<open>strings.Split(s, sep)\<close>: the pieces of \<open>s\<close> between the occurrences of \<open>sep\<close>, found
  from the left; an empty \<open>sep\<close> splits after every character. \<open>splitFrom\<close> scans for a
  separator that is not empty, with the piece read so far.\<close>

fun splitFrom :: "string \<Rightarrow> string \<Rightarrow> string \<Rightarrow> string list" where
  "splitFrom sep piece [] = [piece]"
| "splitFrom sep piece (c # s) =
     (if sep = [] then [piece]
      else if take (length sep) (c # s) = sep
        then piece # splitFrom sep [] (drop (length sep) (c # s))
        else splitFrom sep (piece @ [c]) s)"

definition Split :: "string \<Rightarrow> string \<Rightarrow> string list" where
  "Split s sep = (if sep = [] then map (\<lambda>c. [c]) s else splitFrom sep [] s)"

text \<open>\<^verbatim>\<open>regexp.MatchString(pattern, s)\<close> returns \<^verbatim>\<open>(matched bool, err error)\<close>. The regular
  expression engine is the parameter \<open>M\<close> of the functions below.\<close>

type_synonym matcher = "string \<Rightarrow> string \<Rightarrow> bool \<times> string option"

text \<open>The loop over \<^verbatim>\<open>target.ResourceInclude\<close>, lines 122 to 129: the value of \<^verbatim>\<open>include\<close>
  when the loop is left.\<close>

fun includeLoop :: "matcher \<Rightarrow> string list \<Rightarrow> string \<Rightarrow> bool" where
  "includeLoop M [] resource_name = False"
| "includeLoop M (rx # rxs) resource_name =
     (case M rx resource_name of
        (matched, err) \<Rightarrow>
          if err = None \<and> matched then True else includeLoop M rxs resource_name)"

text \<open>The loop over \<^verbatim>\<open>target.ResourceExclude\<close>, lines 136 to 143: the value of \<^verbatim>\<open>exclude\<close>.\<close>

fun excludeLoop :: "matcher \<Rightarrow> string list \<Rightarrow> string \<Rightarrow> bool" where
  "excludeLoop M [] resource_name = False"
| "excludeLoop M (rx # rxs) resource_name =
     (case M rx resource_name of
        (matched, err) \<Rightarrow>
          if err = None \<and> matched then True else excludeLoop M rxs resource_name)"

text \<open>One turn of the loop over \<^verbatim>\<open>resources\<close>, lines 118 to 147: \<open>Some True\<close> when the turn
  reaches the call of \<^verbatim>\<open>collectResource\<close>, \<open>Some False\<close> when it leaves by \<^verbatim>\<open>continue\<close>, \<open>None\<close>
  when indexing \<^verbatim>\<open>resource_parts\<close> panics.\<close>

definition keepResource :: "matcher \<Rightarrow> ResourceGroup \<Rightarrow> string \<Rightarrow> bool option" where
  "keepResource M target resource =
     (let resource_parts = Split resource ''/'' in
      if length resource_parts = 0 then None
      else
        let resource_name = resource_parts ! (length resource_parts - 1) in
        if length (ResourceInclude target) \<noteq> 0
           \<and> \<not> includeLoop M (ResourceInclude target) resource_name
        then Some False
        else if excludeLoop M (ResourceExclude target) resource_name then Some False
        else Some True)"

text \<open>The resources of a group that \<^verbatim>\<open>Collect\<close> hands to \<^verbatim>\<open>collectResource\<close>, in order.\<close>

fun selectResources :: "matcher \<Rightarrow> ResourceGroup \<Rightarrow> string list \<Rightarrow> string list option" where
  "selectResources M target [] = Some []"
| "selectResources M target (resource # resources) =
     (case keepResource M target resource of
        None \<Rightarrow> None
      | Some keep \<Rightarrow>
          (case selectResources M target resources of
             None \<Rightarrow> None
           | Some rest \<Rightarrow> Some (if keep then resource # rest else rest)))"

text \<open>A regular expression engine for the expressions made of an optional \<^verbatim>\<open>^\<close>, literal
  characters and an optional \<^verbatim>\<open>$\<close>: such an expression matches a string that has the
  literal text at its start, at its end, as the whole of it or anywhere in it. Any other
  expression is outside this model, which answers it with an error of its own.\<close>

definition isMeta :: "char \<Rightarrow> bool" where
  "isMeta c = (c \<in> set ''.+*?()|[]{}^$'' \<or> of_char c = (92::nat))"

definition MatchLiteral :: matcher where
  "MatchLiteral pattern s =
     (let atStart = (take 1 pattern = ''^'');
          p1 = (if atStart then drop 1 pattern else pattern);
          atEnd = (p1 \<noteq> [] \<and> last p1 = CHR ''$'');
          lit = (if atEnd then butlast p1 else p1)
      in if list_ex isMeta lit then (False, Some ''expression outside the model'')
         else
           (if atStart \<and> atEnd then s = lit
            else if atStart then take (length lit) s = lit
            else if atEnd then length lit \<le> length s \<and> drop (length s - length lit) s = lit
            else list_ex (\<lambda>i. take (length lit) (drop i s) = lit) [0..<Suc (length s)],
            None))"

section \<open>The Azure client\<close>

text \<open>
  An instant of \<^verbatim>\<open>time.Time\<close> is its number of nanoseconds since the Unix epoch, an
  unbounded integer (the years that \<^verbatim>\<open>time.Time\<close> cannot hold are not told apart);
  \<^verbatim>\<open>time.Duration\<close> counts nanoseconds too. Both instants compared below carry no
  monotonic clock reading (\<^verbatim>\<open>UTC()\<close> strips it).
\<close>

type_synonym Time = int

definition Minute :: int where
  "Minute = 60 * 1000000000"

definition Add :: "Time \<Rightarrow> int \<Rightarrow> Time" where
  "Add t d = t + d"

definition After :: "Time \<Rightarrow> Time \<Rightarrow> bool" where
  "After t u = (t > u)"

definition Unix :: "int \<Rightarrow> int \<Rightarrow> Time" where
  "Unix sec nsec = sec * 1000000000 + nsec"

text \<open>\<^verbatim>\<open>time.Time{}\<close>: January 1 of year 1, 00:00:00 UTC.\<close>

definition zeroTime :: Time where
  "zeroTime = Unix (- 62135596800) 0"

text \<open>The HTTP client of \<^verbatim>\<open>AzureClient\<close> is the outside world, given to each function as the
  answer it would get; the two fields that change are the state.\<close>

record AzureClient =
  accessToken :: string
  accessTokenExpiresOn :: Time

definition NewAzureClient :: AzureClient where
  "NewAzureClient = \<lparr>accessToken = [], accessTokenExpiresOn = zeroTime\<rparr>"

text \<open>A value of \<^verbatim>\<open>interface{}\<close> as \<^verbatim>\<open>json.Unmarshal\<close> stores it.\<close>

datatype jvalue =
    JString string
  | JNumber real
  | JBool bool
  | JNull
  | JArray "jvalue list"
  | JObject "(string \<times> jvalue) list"

text \<open>The answer to a request. \<open>RequestError\<close>: the request could not be built
  (\<^verbatim>\<open>http.NewRequest\<close> failed) and nothing was sent; \<open>TransportError\<close>: the client returned an
  error; \<open>Response code body\<close>: a response, whose body cannot be read (\<open>ReadError\<close>), does
  not unmarshal into the target (\<open>UnmarshalError\<close>) or decodes to a value.\<close>

datatype 'a body = ReadError | UnmarshalError | Decoded 'a

datatype 'a http = RequestError | TransportError | Response int "'a body"

datatype error =
    Authenticating
  | NotStatus200 int
  | ReadingBody
  | Unmarshalling
  | ParseIntFailed string
  | Refreshing error
  | CreatingRequest
  | RequestFailed
  | MetricsStatus int
  | ResourceGroupStatus int

text \<open>\<^verbatim>\<open>strconv.ParseInt(s, 10, 64)\<close>: an optional sign, then one or more decimal digits, the
  value within the range of \<^verbatim>\<open>int64\<close>.\<close>

definition digitsValue :: "string \<Rightarrow> int" where
  "digitsValue ds = foldl (\<lambda>n c. 10 * n + (int (of_char c) - 48)) 0 ds"

definition ParseInt :: "string \<Rightarrow> unit + int" where
  "ParseInt s =
     (let neg = (take 1 s = ''-'');
          ds = (if take 1 s = ''-'' \<or> take 1 s = ''+'' then drop 1 s else s)
      in if ds = [] \<or> \<not> list_all isDigit ds then Inl ()
         else
           let n = (if neg then - digitsValue ds else digitsValue ds)
           in if n < - (2 ^ 63) \<or> 2 ^ 63 - 1 < n then Inl () else Inr n)"

text \<open>\<^verbatim>\<open>getAccessToken\<close>. \<open>resp\<close> is the answer of the identity endpoint to \<^verbatim>\<open>PostForm\<close>, whose
  error covers a request that could not be built. The result is the client with the
  error (\<open>None\<close> is \<^verbatim>\<open>nil\<close>), or \<open>None\<close> when a type assertion \<^verbatim>\<open>.(string)\<close> panics.\<close>

definition getAccessToken ::
  "AzureClient \<Rightarrow> (string \<rightharpoonup> jvalue) http \<Rightarrow> (AzureClient \<times> error option) option"
where
  "getAccessToken ac resp =
     (case resp of
        RequestError \<Rightarrow> Some (ac, Some Authenticating)
      | TransportError \<Rightarrow> Some (ac, Some Authenticating)
      | Response StatusCode body \<Rightarrow>
          if StatusCode \<noteq> 200 then Some (ac, Some (NotStatus200 StatusCode))
          else
            (case body of
               ReadError \<Rightarrow> Some (ac, Some ReadingBody)
             | UnmarshalError \<Rightarrow> Some (ac, Some Unmarshalling)
             | Decoded data \<Rightarrow>
                 (case data ''access_token'' of
                    Some (JString token) \<Rightarrow>
                      (let ac = ac\<lparr>accessToken := token\<rparr> in
                       case data ''expires_on'' of
                         Some (JString expires) \<Rightarrow>
                           (case ParseInt expires of
                              Inl _ \<Rightarrow> Some (ac, Some (ParseIntFailed expires))
                            | Inr expiresOn \<Rightarrow>
                                Some (ac\<lparr>accessTokenExpiresOn := Unix expiresOn 0\<rparr>, None))
                       | _ \<Rightarrow> None)
                  | _ \<Rightarrow> None)))"

text \<open>The requests a function hands to the HTTP client, in order: the form posted to the
  identity endpoint, a metrics query with its bearer token and its \<^verbatim>\<open>aggregation\<close>
  parameter, a listing query with its bearer token.\<close>

datatype call = PostToken | GetMetrics string string | GetResources string

text \<open>Lines 375 to 382 of \<^verbatim>\<open>getMetricValue\<close> and, word for word, 435 to 442 of
  \<^verbatim>\<open>listFromResourceGroup\<close>: the client, the requests made and the error of the refresh.\<close>

definition refreshToken ::
  "AzureClient \<Rightarrow> Time \<Rightarrow> (string \<rightharpoonup> jvalue) http
     \<Rightarrow> (AzureClient \<times> call list \<times> error option) option"
where
  "refreshToken ac now tokenResp =
     (let refreshAt = Add (accessTokenExpiresOn ac) (- 10 * Minute) in
      if After now refreshAt then
        (case getAccessToken ac tokenResp of
           None \<Rightarrow> None
         | Some (ac', err) \<Rightarrow>
             Some (ac', [PostToken],
               case err of None \<Rightarrow> None | Some e \<Rightarrow> Some (Refreshing e)))
      else Some (ac, [], None))"

text \<open>\<^verbatim>\<open>strings.Join\<close>.\<close>

fun Join :: "string list \<Rightarrow> string \<Rightarrow> string" where
  "Join [] sep = []"
| "Join [a] sep = a"
| "Join (a # b # rest) sep = a @ sep @ Join (b # rest) sep"

text \<open>The \<^verbatim>\<open>aggregation\<close> parameter of the metrics query, lines 399 to 403.\<close>

definition aggregationParam :: "string list \<Rightarrow> string" where
  "aggregationParam aggregations =
     (if length aggregations > 0 then Join aggregations '',''
      else ''Total,Average,Minimum,Maximum'')"

text \<open>\<^verbatim>\<open>getMetricValue\<close>, given the instant \<^verbatim>\<open>time.Now()\<close> and the answers of the identity and
  the metrics endpoint.\<close>

definition getMetricValue ::
  "AzureClient \<Rightarrow> Time \<Rightarrow> (string \<rightharpoonup> jvalue) http \<Rightarrow> AzureMetricValueResponse http
     \<Rightarrow> string list \<Rightarrow> (AzureClient \<times> call list \<times> (error + AzureMetricValueResponse)) option"
where
  "getMetricValue ac now tokenResp metricsResp aggregations =
     (case refreshToken ac now tokenResp of
        None \<Rightarrow> None
      | Some (ac, calls, Some err) \<Rightarrow> Some (ac, calls, Inl err)
      | Some (ac, calls, None) \<Rightarrow>
          (case metricsResp of
             RequestError \<Rightarrow> Some (ac, calls, Inl CreatingRequest)
           | TransportError \<Rightarrow>
               Some (ac, calls @ [GetMetrics (accessToken ac) (aggregationParam aggregations)],
                 Inl RequestFailed)
           | Response StatusCode body \<Rightarrow>
               Some (ac, calls @ [GetMetrics (accessToken ac) (aggregationParam aggregations)],
                 if StatusCode \<noteq> 200 then Inl (MetricsStatus StatusCode)
                 else (case body of
                         ReadError \<Rightarrow> Inl ReadingBody
                       | UnmarshalError \<Rightarrow> Inl Unmarshalling
                       | Decoded data \<Rightarrow> Inr data))))"

text \<open>An element of \<^verbatim>\<open>AzureResourceListResponse.Value\<close>; the fields besides \<^verbatim>\<open>Id\<close> carry the
  prefix \<open>R_\<close>. The slice is only ranged over, so a nil slice is the empty list.\<close>

record ListedResource =
  Id :: string
  R_Name :: string
  R_Type :: string
  R_ManagedBy :: string
  R_Location :: string

record AzureResourceListResponse =
  ListValue :: "ListedResource list"

text \<open>The loop of lines 484 to 489. The slice expression \<^verbatim>\<open>result.Id[subscriotionPrefixLen:]\<close>
  panics when the identifier is shorter than the prefix.\<close>

fun stripPrefixes :: "string \<Rightarrow> string list \<Rightarrow> ListedResource list \<Rightarrow> string list option" where
  "stripPrefixes subscription resources [] = Some resources"
| "stripPrefixes subscription resources (result # results) =
     (let subscriotionPrefixLen = length subscription + 1 in
      if subscriotionPrefixLen > length (Id result) then None
      else stripPrefixes subscription
             (resources @ [drop subscriotionPrefixLen (Id result)]) results)"

text \<open>\<^verbatim>\<open>listFromResourceGroup\<close>, given the subscription of the credentials.\<close>

definition listFromResourceGroup ::
  "string \<Rightarrow> AzureClient \<Rightarrow> Time \<Rightarrow> (string \<rightharpoonup> jvalue) http \<Rightarrow> AzureResourceListResponse http
     \<Rightarrow> (AzureClient \<times> call list \<times> (error + string list)) option"
where
  "listFromResourceGroup subscriptionID ac now tokenResp listResp =
     (case refreshToken ac now tokenResp of
        None \<Rightarrow> None
      | Some (ac, calls, Some err) \<Rightarrow> Some (ac, calls, Inl err)
      | Some (ac, calls, None) \<Rightarrow>
          (let subscription = ''subscriptions/'' @ subscriptionID in
           case listResp of
             RequestError \<Rightarrow> Some (ac, calls, Inl CreatingRequest)
           | TransportError \<Rightarrow>
               Some (ac, calls @ [GetResources (accessToken ac)], Inl RequestFailed)
           | Response StatusCode body \<Rightarrow>
               if StatusCode \<noteq> 200
               then Some (ac, calls @ [GetResources (accessToken ac)],
                      Inl (ResourceGroupStatus StatusCode))
               else
                 (case body of
                    ReadError \<Rightarrow>
                      Some (ac, calls @ [GetResources (accessToken ac)], Inl ReadingBody)
                  | UnmarshalError \<Rightarrow>
                      Some (ac, calls @ [GetResources (accessToken ac)], Inl Unmarshalling)
                  | Decoded data \<Rightarrow>
                      (case stripPrefixes subscription [] (ListValue data) of
                         None \<Rightarrow> None
                       | Some resources \<Rightarrow>
                           Some (ac, calls @ [GetResources (accessToken ac)], Inr resources)))))"

section \<open>Vocabulary of the specification\<close>

text \<open>The name derivation as the specification words it (4.4), character by character.\<close>

definition MapName :: "string \<Rightarrow> string \<Rightarrow> string" where
  "MapName rawMetricName unit =
     map (\<lambda>c. if metricChar c then c else CHR ''_'')
       (concat (map (\<lambda>c. if c = CHR ''/'' then ''_per_'' else [c])
          (map lowerByte (map (\<lambda>c. if c = CHR '' '' then CHR ''_'' else c) rawMetricName)
           @ ''_'' @ map lowerByte unit)))"

text \<open>The four aggregation kinds, with the name, the suffix and the field of each.\<close>

datatype kind = KTotal | KAverage | KMinimum | KMaximum

fun kindName :: "kind \<Rightarrow> string" where
  "kindName KTotal = ''Total''"
| "kindName KAverage = ''Average''"
| "kindName KMinimum = ''Minimum''"
| "kindName KMaximum = ''Maximum''"

fun kindSuffix :: "kind \<Rightarrow> string" where
  "kindSuffix KTotal = ''_total''"
| "kindSuffix KAverage = ''_average''"
| "kindSuffix KMinimum = ''_min''"
| "kindSuffix KMaximum = ''_max''"

fun kindValue :: "kind \<Rightarrow> Data \<Rightarrow> float64" where
  "kindValue KTotal d = Total d"
| "kindValue KAverage d = Average d"
| "kindValue KMinimum d = Minimum d"
| "kindValue KMaximum d = Maximum d"

fun kindOnWire :: "kind \<Rightarrow> DataJSON \<Rightarrow> float64 option" where
  "kindOnWire KTotal j = total j"
| "kindOnWire KAverage j = average j"
| "kindOnWire KMinimum j = minimum j"
| "kindOnWire KMaximum j = maximum j"

definition allKinds :: "kind list" where
  "allKinds = [KTotal, KAverage, KMinimum, KMaximum]"

text \<open>The kinds the metrics query asks for: the configured list, or all four when the list
  is empty.\<close>

definition requestedAggregations :: "string list \<Rightarrow> string list" where
  "requestedAggregations aggregations =
     (if aggregations = [] then map kindName allKinds else aggregations)"

definition requested :: "string list \<Rightarrow> kind \<Rightarrow> bool" where
  "requested aggregations k = (kindName k \<in> set (requestedAggregations aggregations))"

text \<open>The sample of one kind for a metric value entry: the name with the suffix of the
  kind, the field of the kind in the last data point of the entry's first time series.\<close>

definition sampleFor :: "Labels \<Rightarrow> MetricValue \<Rightarrow> kind \<Rightarrow> Metric" where
  "sampleFor labels e k =
     \<lparr>fqName = metricName (Name_Value e) (Unit e) @ kindSuffix k,
      helpStr = metricName (Name_Value e) (Unit e) @ kindSuffix k,
      constLabels = labels,
      val = kindValue k (last (Data (hd (Timeseries e))))\<rparr>"

text \<open>The samples of an entry: one for each kind the request names, in the order of the
  source.\<close>

definition entrySamples :: "(string \<Rightarrow> Labels option) \<Rightarrow> string list \<Rightarrow> MetricValue \<Rightarrow> Metric list" where
  "entrySamples L aggregations e =
     map (sampleFor (the (L (ID e))) e) (filter (requested aggregations) allKinds)"

text \<open>An entry the loop of \<^verbatim>\<open>collectResource\<close> gets through without a panic.\<close>

definition emittable :: "(string \<Rightarrow> Labels option) \<Rightarrow> MetricValue \<Rightarrow> bool" where
  "emittable L e =
     (Timeseries e \<noteq> [] \<and> Data (hd (Timeseries e)) \<noteq> [] \<and> L (ID e) \<noteq> None
      \<and> IsValidMetricName (metricName (Name_Value e) (Unit e)))"

text \<open>The leaf name of a resource: what follows its last slash.\<close>

definition leafName :: "string \<Rightarrow> string" where
  "leafName resource = rev (takeWhile (\<lambda>c. c \<noteq> CHR ''/'') (rev resource))"

text \<open>An expression matches a name when the engine says so without an error.\<close>

definition matches :: "matcher \<Rightarrow> string \<Rightarrow> string \<Rightarrow> bool" where
  "matches M name rx = (M rx name = (True, None))"


section \<open>Concrete inputs\<close>

text \<open>A metric value entry as the metrics endpoint returns it for an App Service plan, with
  the given data points in its one time series.\<close>

definition cpuEntry :: "Data list \<Rightarrow> MetricValue" where
  "cpuEntry points =
     \<lparr>Timeseries = [\<lparr>Data = points\<rparr>],
      ID = ''/subscriptions/s1/resourceGroups/rg1/providers/Microsoft.Web/serverFarms/plan1/providers/Microsoft.Insights/metrics/CpuPercentage'',
      Name_LocalizedValue = ''CPU Percentage'', Name_Value = ''CPU Percentage'',
      Type = ''Microsoft.Insights/metrics'', Unit = ''Percent''\<rparr>"

text \<open>A \<^verbatim>\<open>CreateResourceLabels\<close> that answers every identifier with the labels of that plan.\<close>

definition planLabels :: "string \<Rightarrow> Labels option" where
  "planLabels resourceID =
     Some [''resource_group'' \<mapsto> ''rg1'', ''resource_name'' \<mapsto> ''plan1'']"

definition point :: "string \<Rightarrow> float64 \<Rightarrow> float64 \<Rightarrow> float64 \<Rightarrow> float64 \<Rightarrow> Data" where
  "point t a b c d = \<lparr>TimeStamp = t, Total = a, Average = b, Minimum = c, Maximum = d\<rparr>"

definition response :: "MetricValue list option \<Rightarrow> AzureMetricValueResponse" where
  "response vs = \<lparr>Value = vs, APIError_Code = [], APIError_Message = []\<rparr>"

text \<open>A resource group that asks for the sites whose names start with \<^verbatim>\<open>web-\<close> and do not
  end in \<^verbatim>\<open>-staging\<close>.\<close>

definition webGroup :: ResourceGroup where
  "webGroup =
     \<lparr>RG_Name = ''rg1'', ResourceTypes = [''Microsoft.Web/sites''],
      ResourceInclude = [''^web-''], ResourceExclude = [''-staging$''],
      RG_Metrics = [''Requests''], RG_Aggregations = [''Total''], ResourceGroup_XXX = []\<rparr>"



definition site :: "string \<Rightarrow> string" where
  "site leaf = ''/resourceGroups/rg1/providers/Microsoft.Web/sites/'' @ leaf"

text \<open>A token response of the identity endpoint, and a client holding a token that expires
  at the given instant.\<close>

definition tokenBody :: "string \<rightharpoonup> jvalue" where
  "tokenBody =
     [''token_type'' \<mapsto> JString ''Bearer'', ''access_token'' \<mapsto> JString ''eyJ0eXAi'',
      ''expires_on'' \<mapsto> JString ''1540003600'']"

definition clientUntil :: "Time \<Rightarrow> AzureClient" where
  "clientUntil expiry = \<lparr>accessToken = ''old'', accessTokenExpiresOn = expiry\<rparr>"

text \<open>A configuration with one resource, and the same with an aggregation that does not
  exist.\<close>

definition sampleConfig :: "string list \<Rightarrow> Config" where
  "sampleConfig aggregations =
     \<lparr>Credentials = \<lparr>SubscriptionID = ''s1'', ClientID = ''c1'', ClientSecret = ''secret'',
                      TenantID = ''t1'', Credentials_XXX = []\<rparr>,
      Resources = [\<lparr>Name = ''/resourceGroups/rg1/providers/Microsoft.Web/sites/web-prod'',
                    Metrics = [''Requests''], Aggregations = aggregations, Resource_XXX = []\<rparr>],
      ResourceGroups = [webGroup],
      XXX = []\<rparr>"

text \<open>An entry of a listing response for the resource with the given identifier.\<close>

definition listed :: "string \<Rightarrow> ListedResource" where
  "listed resourceID =
     \<lparr>Id = resourceID, R_Name = leafName resourceID, R_Type = ''Microsoft.Web/sites'',
      R_ManagedBy = [], R_Location = ''westeurope''\<rparr>"

section \<open>Properties\<close>

subsection \<open>Strings\<close>

lemma Replace_single:
  "Replace s [c] new = concat (map (\<lambda>x. if x = c then new else [x]) s)"
  by (induction s) auto

lemma concat_keep_or:
  "concat (map (\<lambda>c. if P c then [c] else [d]) s) = map (\<lambda>c. if P c then c else d) s"
  by (induction s) auto

lemma concat_swap_one:
  "concat (map (\<lambda>c. if c = a then [d] else [c]) s) = map (\<lambda>c. if c = a then d else c) s"
  by (induction s) auto

lemma lowerByte_underscore: "lowerByte CHR ''_'' = CHR ''_''"
  by (simp add: lowerByte_def)

lemma metricName_eq_MapName: "metricName n u = MapName n u"
  by (simp add: metricName_def MapName_def ToLower_def ReplaceInvalid_def Replace_single
      concat_keep_or concat_swap_one lowerByte_underscore comp_assoc)


lemma metricName_nonempty: "metricName n u \<noteq> []"
  by (simp add: metricName_eq_MapName MapName_def)

subsection \<open>Emission\<close>

lemma IsValid_append:
  "IsValidMetricName m \<Longrightarrow> list_all metricChar sfx \<Longrightarrow> IsValidMetricName (m @ sfx)"
  by (cases m) (auto simp: IsValidMetricName_def)

lemma IsValid_appendD:
  "IsValidMetricName (m @ sfx) \<Longrightarrow> m \<noteq> [] \<Longrightarrow> IsValidMetricName m"
  by (cases m) (auto simp: IsValidMetricName_def)

lemma suffix_chars: "list_all metricChar (kindSuffix k)"
  by (cases k) (simp_all add: metricChar_def)

lemma hasAggregation_requested: "hasAggregation aggs (kindName k) = requested aggs k"
  by (cases k) (auto simp: hasAggregation_def requested_def requestedAggregations_def
      allKinds_def)

text \<open>The kinds the emission tests for are the kinds the metrics query asks for.\<close>

lemma aggregationParam_requested:
  "aggregationParam aggregations = Join (requestedAggregations aggregations) '',''"
  by (simp add: aggregationParam_def requestedAggregations_def allKinds_def)

lemma emit_valid:
  "IsValidMetricName (metricName n u) \<Longrightarrow>
   emit ch (metricName n u @ kindSuffix k) labels v =
     Some (ch @ [\<lparr>fqName = metricName n u @ kindSuffix k, helpStr = metricName n u @ kindSuffix k,
                  constLabels = labels, val = v\<rparr>])"
  by (simp add: emit_def MustNewConstMetric_def IsValid_append suffix_chars metricName_nonempty)

lemma emit_SomeD:
  "emit ch (metricName n u @ kindSuffix k) labels v = Some out \<Longrightarrow>
     IsValidMetricName (metricName n u)"
  by (auto simp: emit_def MustNewConstMetric_def split: if_splits option.splits
      dest: IsValid_appendD[OF _ metricName_nonempty])

lemmas emit_kinds =
  emit_valid[where k = KTotal, simplified] emit_valid[where k = KAverage, simplified]
  emit_valid[where k = KMinimum, simplified] emit_valid[where k = KMaximum, simplified]

lemmas emit_kindsD =
  emit_SomeD[where k = KTotal, simplified] emit_SomeD[where k = KAverage, simplified]
  emit_SomeD[where k = KMinimum, simplified] emit_SomeD[where k = KMaximum, simplified]

lemmas hasAggregation_kinds =
  hasAggregation_requested[where k = KTotal, simplified]
  hasAggregation_requested[where k = KAverage, simplified]
  hasAggregation_requested[where k = KMinimum, simplified]
  hasAggregation_requested[where k = KMaximum, simplified]

lemma collectValue_ok:
  assumes "Timeseries e \<noteq> []" "Data (hd (Timeseries e)) \<noteq> []" "L (ID e) = Some labels"
    "IsValidMetricName (metricName (Name_Value e) (Unit e))"
  shows "collectValue L aggs ch e = Some (ch @ map (sampleFor labels e) (filter (requested aggs) allKinds))"
proof -
  obtain ts rest where ts: "Timeseries e = ts # rest" using assms(1) by (cases "Timeseries e") auto
  have d: "Data ts \<noteq> []" using assms(2) ts by simp
  have l: "Data ts ! (length (Data ts) - Suc 0) = last (Data ts)" using d by (simp add: last_conv_nth)
  show ?thesis
    using assms(3,4) d
    by (simp add: collectValue_def ts l Let_def emit_kinds allKinds_def hasAggregation_kinds sampleFor_def)
qed

lemma collectValue_SomeD:
  assumes "collectValue L aggs ch e = Some out"
  shows "\<exists>labels. Timeseries e \<noteq> [] \<and> Data (hd (Timeseries e)) \<noteq> [] \<and> L (ID e) = Some labels \<and>
           out = ch @ map (sampleFor labels e) (filter (requested aggs) allKinds)"
proof -
  obtain ts rest where ts: "Timeseries e = ts # rest"
    using assms by (cases "Timeseries e") (auto simp: collectValue_def)
  have d: "Data ts \<noteq> []" using assms ts by (auto simp: collectValue_def split: if_splits)
  obtain labels where lb: "L (ID e) = Some labels"
    using assms ts d by (cases "L (ID e)") (auto simp: collectValue_def)
  show ?thesis
  proof (cases "filter (requested aggs) allKinds = []")
    case True
    then show ?thesis using assms ts d lb
      by (auto simp: collectValue_def allKinds_def hasAggregation_kinds split: if_splits)
  next
    case False
    then have "IsValidMetricName (metricName (Name_Value e) (Unit e))"
      using assms ts d lb emit_kindsD
      by (auto simp: collectValue_def allKinds_def hasAggregation_kinds Let_def
          split: if_splits Option.bind_splits)
    then have "collectValue L aggs ch e = Some (ch @ map (sampleFor labels e) (filter (requested aggs) allKinds))"
      using ts d lb by (intro collectValue_ok) auto
    then show ?thesis using assms ts d lb by simp
  qed
qed

lemma collectValues_ok:
  assumes "\<forall>e\<in>set vs. emittable L e"
  shows "collectValues L aggs ch vs = Some (ch @ concat (map (entrySamples L aggs) vs))"
  using assms
proof (induction vs arbitrary: ch)
  case Nil
  then show ?case by simp
next
  case (Cons v vs)
  then obtain labels where lb: "L (ID v) = Some labels" by (auto simp: emittable_def)
  have "collectValue L aggs ch v = Some (ch @ map (sampleFor labels v) (filter (requested aggs) allKinds))"
    using Cons.prems by (intro collectValue_ok lb) (auto simp: emittable_def)
  then show ?case using Cons lb by (simp add: entrySamples_def)
qed

lemma collectValues_SomeD:
  assumes "collectValues L aggs ch vs = Some out"
  shows "(\<forall>e\<in>set vs. Timeseries e \<noteq> [] \<and> Data (hd (Timeseries e)) \<noteq> [] \<and> L (ID e) \<noteq> None) \<and>
     out = ch @ concat (map (entrySamples L aggs) vs)"
  using assms
proof (induction vs arbitrary: ch)
  case Nil
  then show ?case by simp
next
  case (Cons v vs)
  then obtain ch' where c: "collectValue L aggs ch v = Some ch'" and r: "collectValues L aggs ch' vs = Some out"
    by (auto split: option.splits)
  from collectValue_SomeD[OF c] Cons.IH[OF r] show ?case by (auto simp: entrySamples_def)
qed

lemma collectResource_loop:
  assumes "Value d = Some (v0 # vs)" "Timeseries v0 \<noteq> []" "Data (hd (Timeseries v0)) \<noteq> []"
  shows "collectResource L ch (Inr d) aggs = collectValues L aggs ch (v0 # vs)"
  using assms by (cases "Timeseries v0") (simp_all add: collectResource_def)

lemma kind_count:
  "length (filter (\<lambda>m. fqName m = metricName (Name_Value e) (Unit e) @ kindSuffix k)
       (entrySamples L aggs e)) = (if requested aggs k then 1 else 0)"
  by (cases k) (simp_all add: entrySamples_def allKinds_def sampleFor_def)

text \<open>
  C1, as amended. When the response has at least one entry and the loop gets through every
  entry (each has a first time series with a data point, labels, and a name the metrics
  library accepts), \<^verbatim>\<open>collectResource\<close> sends, for every entry in turn, exactly one gauge
  for each kind that the request names (the configured list, or all four kinds when the
  list is empty) and none for any other kind, whatever keys the data point had on the
  wire; the name of the gauge ends in the suffix of its kind.
\<close>
theorem collectResource_per_requested_kind:
  assumes "Value d = Some (v0 # vs)" and "\<forall>e\<in>set (v0 # vs). emittable L e"
  shows "collectResource L ch (Inr d) aggregations
           = Some (ch @ concat (map (entrySamples L aggregations) (v0 # vs)))
         \<and> (\<forall>e k. length (filter (\<lambda>m. fqName m = metricName (Name_Value e) (Unit e) @ kindSuffix k)
                 (entrySamples L aggregations e)) = (if requested aggregations k then 1 else 0))"
proof -
  have "emittable L v0" using assms(2) by simp
  then have "collectResource L ch (Inr d) aggregations = collectValues L aggregations ch (v0 # vs)"
    using assms(1) by (intro collectResource_loop) (auto simp: emittable_def)
  then show ?thesis using collectValues_ok[OF assms(2)] kind_count by simp
qed


lemma cpu_name: "metricName ''CPU Percentage'' ''Percent'' = ''cpu_percentage_percent''"
  by code_simp

lemma cpu_name_valid: "IsValidMetricName ''cpu_percentage_percent''"
  by code_simp

lemma cpuEntry_emittable: "ps \<noteq> [] \<Longrightarrow> emittable planLabels (cpuEntry ps)"
  by (simp add: emittable_def cpuEntry_def planLabels_def cpu_name cpu_name_valid)

lemma requested_simps:
  "requested [''Total'', ''Maximum''] k = (k = KTotal \<or> k = KMaximum)"
  "requested [] k = True"
  "requested [''Total''] k = (k = KTotal)"
  by (cases k; simp add: requested_def requestedAggregations_def allKinds_def)+

text \<open>The theorem at a response with one entry of two data points, for the request of
  Total and Maximum.\<close>

theorem collectResource_per_requested_kind_witness:
  "collectResource planLabels []
     (Inr (response (Some [cpuEntry [point ''t1'' 1 2 3 4, point ''t2'' 5 6 7 8]])))
     [''Total'', ''Maximum'']
   = Some [\<lparr>fqName = ''cpu_percentage_percent_total'', helpStr = ''cpu_percentage_percent_total'',
            constLabels = [''resource_group'' \<mapsto> ''rg1'', ''resource_name'' \<mapsto> ''plan1''], val = 5\<rparr>,
           \<lparr>fqName = ''cpu_percentage_percent_max'', helpStr = ''cpu_percentage_percent_max'',
            constLabels = [''resource_group'' \<mapsto> ''rg1'', ''resource_name'' \<mapsto> ''plan1''], val = 8\<rparr>]"
proof -
  let ?e = "cpuEntry [point ''t1'' 1 2 3 4, point ''t2'' 5 6 7 8]"
  have v: "Value (response (Some [?e])) = Some (?e # [])" by (simp add: response_def)
  have em: "\<forall>e\<in>set (?e # []). emittable planLabels e" by (simp add: cpuEntry_emittable)
  have s: "entrySamples planLabels [''Total'', ''Maximum''] ?e =
     [\<lparr>fqName = ''cpu_percentage_percent_total'', helpStr = ''cpu_percentage_percent_total'',
            constLabels = [''resource_group'' \<mapsto> ''rg1'', ''resource_name'' \<mapsto> ''plan1''], val = 5\<rparr>,
           \<lparr>fqName = ''cpu_percentage_percent_max'', helpStr = ''cpu_percentage_percent_max'',
            constLabels = [''resource_group'' \<mapsto> ''rg1'', ''resource_name'' \<mapsto> ''plan1''], val = 8\<rparr>]"
    by (simp add: entrySamples_def sampleFor_def allKinds_def requested_simps cpuEntry_def
        planLabels_def point_def cpu_name)
  from collectResource_per_requested_kind[OF v em, of "[]" "[''Total'', ''Maximum'']"]
  have "collectResource planLabels [] (Inr (response (Some [?e]))) [''Total'', ''Maximum'']
          = Some ([] @ concat (map (entrySamples planLabels [''Total'', ''Maximum'']) (?e # [])))"
    by (rule conjunct1)
  then show ?thesis by (simp add: s)
qed

text \<open>
  C1 as stated fails: a kind that the response does not carry is emitted all the same.
  The data point below has no \<^verbatim>\<open>total\<close> key on the wire; its \<^verbatim>\<open>Total\<close> field decodes to 0,
  and a request for Total sends the gauge \<^verbatim>\<open>cpu_percentage_percent_total\<close> with value 0.
\<close>

theorem collectResource_absent_kind_emitted:
  "kindOnWire KTotal \<lparr>timeStamp = Some ''t1'', total = None, average = Some 2, minimum = None, maximum = None\<rparr> = None
   \<and> collectResource planLabels []
       (Inr (response (Some [cpuEntry [decodeData
          \<lparr>timeStamp = Some ''t1'', total = None, average = Some 2, minimum = None, maximum = None\<rparr>]])))
       [''Total'']
     = Some [\<lparr>fqName = ''cpu_percentage_percent_total'', helpStr = ''cpu_percentage_percent_total'',
            constLabels = [''resource_group'' \<mapsto> ''rg1'', ''resource_name'' \<mapsto> ''plan1''], val = 0\<rparr>]"
  by (simp add: collectResource_def response_def cpuEntry_def collectValue_def planLabels_def
      hasAggregation_def emit_def MustNewConstMetric_def cpu_name cpu_name_valid[simplified]
      decodeData_def IsValidMetricName_def metricChar_def isDigit_def)

subsection \<open>Responses without values\<close>

text \<open>
  C3 at the input where the code departs from it: a response whose \<^verbatim>\<open>value\<close> key holds the
  empty array decodes to an empty slice that is not nil, the test \<^verbatim>\<open>Value == nil\<close> lets it
  pass, and \<^verbatim>\<open>Value[0]\<close> panics.
\<close>

theorem collectResource_empty_value_list_panics:
  "collectResource L ch (Inr \<lparr>Value = Some [], APIError_Code = code, APIError_Message = msg\<rparr>) aggregations = None"
  by (simp add: collectResource_def)

text \<open>The rest of C3 holds: a nil value list, a first time series without data points and
  an error of the metrics query each send nothing and return.\<close>

lemma collectResource_nil_value:
  "Value d = None \<Longrightarrow> collectResource L ch (Inr d) aggregations = Some ch"
  by (simp add: collectResource_def)

lemma collectResource_no_data:
  "Value d = Some (v0 # vs) \<Longrightarrow> Timeseries v0 = ts0 # tss \<Longrightarrow> Data ts0 = [] \<Longrightarrow>
   collectResource L ch (Inr d) aggregations = Some ch"
  by (simp add: collectResource_def)

lemma collectResource_no_timeseries_panics:
  "Value d = Some (v0 # vs) \<Longrightarrow> Timeseries v0 = [] \<Longrightarrow>
   collectResource L ch (Inr d) aggregations = None"
  by (simp add: collectResource_def)

lemma collectResource_error:
  "collectResource L ch (Inl err) aggregations = Some ch"
  by (simp add: collectResource_def)

subsection \<open>The value of a sample\<close>

lemma collectResource_SomeD:
  assumes "collectResource L ch (Inr d) aggs = Some out" "Value d = Some vs"
  shows "out = ch \<or> ((\<forall>e\<in>set vs. Timeseries e \<noteq> [] \<and> Data (hd (Timeseries e)) \<noteq> [] \<and> L (ID e) \<noteq> None)
     \<and> out = ch @ concat (map (entrySamples L aggs) vs))"
  using assms collectValues_SomeD[of L aggs ch vs out]
  by (auto simp: collectResource_def split: list.splits if_splits)

text \<open>
  C7. Every sample that \<^verbatim>\<open>collectResource\<close> sends for a decoded response carries, for some
  entry of the response and some kind, the name of that entry with the suffix of the kind
  and the field of the kind in the last data point of the entry's first time series.
\<close>

theorem collectResource_value_of_last_point:
  assumes "collectResource L [] (Inr d) aggregations = Some out" and "Value d = Some vs"
  shows "\<forall>m\<in>set out. \<exists>e\<in>set vs. \<exists>k.
           Timeseries e \<noteq> [] \<and> Data (hd (Timeseries e)) \<noteq> []
           \<and> fqName m = metricName (Name_Value e) (Unit e) @ kindSuffix k
           \<and> val m = kindValue k (last (Data (hd (Timeseries e))))"
proof
  fix m assume m: "m \<in> set out"
  from collectResource_SomeD[OF assms] m
  have all: "\<forall>e\<in>set vs. Timeseries e \<noteq> [] \<and> Data (hd (Timeseries e)) \<noteq> [] \<and> L (ID e) \<noteq> None"
    and out: "out = concat (map (entrySamples L aggregations) vs)" by auto
  from m out obtain e where e: "e \<in> set vs" and me: "m \<in> set (entrySamples L aggregations e)" by auto
  from me obtain k where "m = sampleFor (the (L (ID e))) e k" by (auto simp: entrySamples_def)
  then have "fqName m = metricName (Name_Value e) (Unit e) @ kindSuffix k
           \<and> val m = kindValue k (last (Data (hd (Timeseries e))))" by (simp add: sampleFor_def)
  with e all show "\<exists>e\<in>set vs. \<exists>k.
           Timeseries e \<noteq> [] \<and> Data (hd (Timeseries e)) \<noteq> []
           \<and> fqName m = metricName (Name_Value e) (Unit e) @ kindSuffix k
           \<and> val m = kindValue k (last (Data (hd (Timeseries e))))" by blast
qed

text \<open>The theorem at a response with two data points: the Average gauge carries 6, the
  average field of the second point.\<close>

theorem collectResource_value_of_last_point_witness:
  "collectResource planLabels []
     (Inr (response (Some [cpuEntry [point ''t1'' 1 2 3 4, point ''t2'' 5 6 7 8]]))) [''Average'']
   = Some [\<lparr>fqName = ''cpu_percentage_percent_average'', helpStr = ''cpu_percentage_percent_average'',
            constLabels = [''resource_group'' \<mapsto> ''rg1'', ''resource_name'' \<mapsto> ''plan1''], val = 6\<rparr>]
   \<and> (\<exists>e\<in>set [cpuEntry [point ''t1'' 1 2 3 4, point ''t2'' 5 6 7 8]]. \<exists>k.
         6 = kindValue k (last (Data (hd (Timeseries e)))))"
proof -
  let ?d = "response (Some [cpuEntry [point ''t1'' 1 2 3 4, point ''t2'' 5 6 7 8]])"
  let ?m = "\<lparr>fqName = ''cpu_percentage_percent_average'', helpStr = ''cpu_percentage_percent_average'',
            constLabels = [''resource_group'' \<mapsto> ''rg1'', ''resource_name'' \<mapsto> ''plan1''], val = 6\<rparr>"
  have run: "collectResource planLabels [] (Inr ?d) [''Average''] = Some [?m]"
    by (simp add: collectResource_def response_def cpuEntry_def collectValue_def planLabels_def
        hasAggregation_def emit_def MustNewConstMetric_def cpu_name cpu_name_valid[simplified]
        point_def IsValidMetricName_def metricChar_def isDigit_def)
  have v: "Value ?d = Some [cpuEntry [point ''t1'' 1 2 3 4, point ''t2'' 5 6 7 8]]"
    by (simp add: response_def)
  from collectResource_value_of_last_point[OF run v]
  have "\<exists>e\<in>set [cpuEntry [point ''t1'' 1 2 3 4, point ''t2'' 5 6 7 8]]. \<exists>k.
         6 = kindValue k (last (Data (hd (Timeseries e))))" by auto
  with run show ?thesis by blast
qed

subsection \<open>Filtering the resources of a group\<close>

lemma includeLoop_iff: "includeLoop M rxs name = (\<exists>rx\<in>set rxs. matches M name rx)"
  by (induction rxs) (auto simp: matches_def split: prod.splits)

lemma excludeLoop_iff: "excludeLoop M rxs name = (\<exists>rx\<in>set rxs. matches M name rx)"
  by (induction rxs) (auto simp: matches_def split: prod.splits)

lemma splitFrom_nonempty: "splitFrom sep piece s \<noteq> []"
  by (induction sep piece s rule: splitFrom.induct) auto

lemma leafName_Cons:
  "leafName (c # s) = (if CHR ''/'' \<in> set s then leafName s else if c = CHR ''/'' then s else c # s)"
  by (auto simp: leafName_def takeWhile_append takeWhile_eq_all_conv[THEN iffD2])

lemma last_splitFrom:
  "last (splitFrom ''/'' piece s) = (if CHR ''/'' \<in> set s then leafName s else piece @ s)"
proof (induction s arbitrary: piece)
  case Nil
  then show ?case by simp
next
  case (Cons c s)
  show ?case
  proof (cases "c = CHR ''/''")
    case True
    then show ?thesis using Cons[of "[]"] by (simp add: splitFrom_nonempty leafName_Cons)
  next
    case False
    then show ?thesis using Cons[of "piece @ [c]"] by (simp add: leafName_Cons)
  qed
qed

lemma leafName_no_slash:
  assumes "CHR ''/'' \<notin> set s"
  shows "leafName s = s"
proof -
  have "takeWhile (\<lambda>c. c \<noteq> CHR ''/'') (rev s) = rev s"
    using assms by (intro takeWhile_eq_all_conv[THEN iffD2]) auto
  then show ?thesis unfolding leafName_def by (simp only: rev_rev_ident)
qed

lemma last_Split: "last (Split resource ''/'') = leafName resource"
  by (simp add: Split_def last_splitFrom leafName_no_slash)

lemma Split_slash_nonempty: "Split resource ''/'' \<noteq> []"
  by (simp add: Split_def splitFrom_nonempty)

lemma resource_name_eq:
  "Split resource ''/'' ! (length (Split resource ''/'') - Suc 0) = leafName resource"
  using last_Split[of resource] by (simp add: last_conv_nth Split_slash_nonempty)

lemma keepResource_eq:
  "keepResource M target resource =
     Some ((ResourceInclude target = [] \<or> (\<exists>rx\<in>set (ResourceInclude target). matches M (leafName resource) rx))
           \<and> \<not> (\<exists>rx\<in>set (ResourceExclude target). matches M (leafName resource) rx))"
  by (simp add: keepResource_def Let_def resource_name_eq includeLoop_iff excludeLoop_iff
      Split_slash_nonempty)








subsection \<open>The access token\<close>



text \<open>A body that parses and has no \<^verbatim>\<open>access_token\<close> makes the type assertion panic.\<close>

lemma getAccessToken_missing_field_panics:
  "data ''access_token'' = None \<Longrightarrow> getAccessToken ac (Response 200 (Decoded data)) = None"
  by (simp add: getAccessToken_def)

lemma ParseInt_expires: "ParseInt ''1540003600'' = Inr 1540003600"
  by code_simp

lemma getAccessToken_tokenBody:
  "getAccessToken ac (Response 200 (Decoded tokenBody))
     = Some (\<lparr>accessToken = ''eyJ0eXAi'', accessTokenExpiresOn = Unix 1540003600 0\<rparr>, None)"
  by (simp add: getAccessToken_def tokenBody_def ParseInt_expires)


subsection \<open>When the token is refreshed\<close>

lemma refreshToken_calls:
  "refreshToken ac now tokenResp = Some (ac', calls, err) \<Longrightarrow>
     calls = (if accessTokenExpiresOn ac - 10 * Minute < now then [PostToken] else [])"
  by (auto simp: refreshToken_def Add_def After_def Let_def split: if_splits option.splits)

lemma getMetricValue_calls:
  assumes "getMetricValue ac now tokenResp metricsResp aggregations = Some (ac', calls, r)"
  shows "\<exists>q. calls = (if accessTokenExpiresOn ac - 10 * Minute < now then [PostToken] else []) @ q
     \<and> (q = [] \<or> q = [GetMetrics (accessToken ac') (aggregationParam aggregations)])"
proof -
  obtain ac1 calls1 err where r: "refreshToken ac now tokenResp = Some (ac1, calls1, err)"
    using assms by (cases "refreshToken ac now tokenResp") (auto simp: getMetricValue_def)
  note c = refreshToken_calls[OF r]
  show ?thesis using assms r c
    by (cases err; cases metricsResp) (auto simp: getMetricValue_def)
qed

lemma listFromResourceGroup_calls:
  assumes "listFromResourceGroup subscriptionID ac now tokenResp listResp = Some (ac', calls, r)"
  shows "\<exists>q. calls = (if accessTokenExpiresOn ac - 10 * Minute < now then [PostToken] else []) @ q
     \<and> (q = [] \<or> q = [GetResources (accessToken ac')])"
proof -
  obtain ac1 calls1 err where r: "refreshToken ac now tokenResp = Some (ac1, calls1, err)"
    using assms by (cases "refreshToken ac now tokenResp") (auto simp: listFromResourceGroup_def)
  note c = refreshToken_calls[OF r]
  show ?thesis using assms r c
    by (cases err; cases listResp)
       (auto simp: listFromResourceGroup_def Let_def split: if_splits body.splits option.splits)
qed

lemma refresh_cases:
  assumes "calls = (if accessTokenExpiresOn ac - 10 * Minute < now then [PostToken] else []) @ q"
    and "PostToken \<notin> set q"
  shows "(PostToken \<in> set calls \<longleftrightarrow> accessTokenExpiresOn ac - 10 * Minute < now)
     \<and> (accessTokenExpiresOn ac = now + 5 * Minute \<longrightarrow> PostToken \<in> set calls)
     \<and> (accessTokenExpiresOn ac = now + 15 * Minute \<longrightarrow> PostToken \<notin> set calls)
     \<and> (ac = NewAzureClient \<and> 0 \<le> now \<longrightarrow> PostToken \<in> set calls)"
  using assms by (auto simp: Minute_def NewAzureClient_def zeroTime_def Unix_def)

text \<open>
  C4, as amended. \<^verbatim>\<open>getMetricValue\<close> and \<^verbatim>\<open>listFromResourceGroup\<close> post to the identity
  endpoint exactly when the instant of the call is strictly after the expiry of the token
  minus ten minutes; the query, when one is made, is the last request. A token that
  expires in five minutes is refreshed, one that expires in fifteen minutes is not, and
  the client as \<^verbatim>\<open>NewAzureClient\<close> makes it, which has no token, is refreshed at any
  instant from the Unix epoch on.
\<close>
theorem token_refreshed_iff_after:
  "(getMetricValue ac now tokenResp metricsResp aggregations = Some (ac', calls, r) \<longrightarrow>
      (PostToken \<in> set calls \<longleftrightarrow> accessTokenExpiresOn ac - 10 * Minute < now)
      \<and> (accessTokenExpiresOn ac = now + 5 * Minute \<longrightarrow> PostToken \<in> set calls)
      \<and> (accessTokenExpiresOn ac = now + 15 * Minute \<longrightarrow> PostToken \<notin> set calls)
      \<and> (ac = NewAzureClient \<and> 0 \<le> now \<longrightarrow> PostToken \<in> set calls)
      \<and> (\<forall>bearer a. GetMetrics bearer a \<in> set calls \<longrightarrow> last calls = GetMetrics bearer a))
   \<and> (listFromResourceGroup subscriptionID ac now tokenResp listResp = Some (ac'', calls', r') \<longrightarrow>
      (PostToken \<in> set calls' \<longleftrightarrow> accessTokenExpiresOn ac - 10 * Minute < now)
      \<and> (accessTokenExpiresOn ac = now + 5 * Minute \<longrightarrow> PostToken \<in> set calls')
      \<and> (accessTokenExpiresOn ac = now + 15 * Minute \<longrightarrow> PostToken \<notin> set calls')
      \<and> (ac = NewAzureClient \<and> 0 \<le> now \<longrightarrow> PostToken \<in> set calls')
      \<and> (\<forall>bearer. GetResources bearer \<in> set calls' \<longrightarrow> last calls' = GetResources bearer))"
proof (intro conjI impI)
  assume a: "getMetricValue ac now tokenResp metricsResp aggregations = Some (ac', calls, r)"
  from getMetricValue_calls[OF a] obtain q where
    c: "calls = (if accessTokenExpiresOn ac - 10 * Minute < now then [PostToken] else []) @ q"
    and q: "q = [] \<or> q = [GetMetrics (accessToken ac') (aggregationParam aggregations)]" by blast
  from q have nq: "PostToken \<notin> set q" by auto
  note rc = refresh_cases[OF c nq]
  show "PostToken \<in> set calls \<longleftrightarrow> accessTokenExpiresOn ac - 10 * Minute < now" using rc by blast
  show "PostToken \<in> set calls" if "accessTokenExpiresOn ac = now + 5 * Minute" using rc that by blast
  show "PostToken \<notin> set calls" if "accessTokenExpiresOn ac = now + 15 * Minute" using rc that by blast
  show "PostToken \<in> set calls" if "ac = NewAzureClient \<and> 0 \<le> now" using rc that by blast
  show "\<forall>bearer a. GetMetrics bearer a \<in> set calls \<longrightarrow> last calls = GetMetrics bearer a"
    using c q by auto
next
  assume a: "listFromResourceGroup subscriptionID ac now tokenResp listResp = Some (ac'', calls', r')"
  from listFromResourceGroup_calls[OF a] obtain q where
    c: "calls' = (if accessTokenExpiresOn ac - 10 * Minute < now then [PostToken] else []) @ q"
    and q: "q = [] \<or> q = [GetResources (accessToken ac'')]" by blast
  from q have nq: "PostToken \<notin> set q" by auto
  note rc = refresh_cases[OF c nq]
  show "PostToken \<in> set calls' \<longleftrightarrow> accessTokenExpiresOn ac - 10 * Minute < now" using rc by blast
  show "PostToken \<in> set calls'" if "accessTokenExpiresOn ac = now + 5 * Minute" using rc that by blast
  show "PostToken \<notin> set calls'" if "accessTokenExpiresOn ac = now + 15 * Minute" using rc that by blast
  show "PostToken \<in> set calls'" if "ac = NewAzureClient \<and> 0 \<le> now" using rc that by blast
  show "\<forall>bearer. GetResources bearer \<in> set calls' \<longrightarrow> last calls' = GetResources bearer"
    using c q by auto
qed

text \<open>Two runs: a metrics query with a token that expires in five minutes, a listing query
  with a token that expires in fifteen.\<close>

lemma getMetricValue_in_5_minutes:
  "getMetricValue (clientUntil (Unix 1540000000 0 + 5 * Minute)) (Unix 1540000000 0)
       (Response 200 (Decoded tokenBody)) (Response 200 (Decoded (response None))) []
     = Some (\<lparr>accessToken = ''eyJ0eXAi'', accessTokenExpiresOn = Unix 1540003600 0\<rparr>,
             [PostToken, GetMetrics ''eyJ0eXAi'' ''Total,Average,Minimum,Maximum''],
             Inr (response None))"
  by (simp add: getMetricValue_def refreshToken_def clientUntil_def Add_def After_def Minute_def
      Unix_def getAccessToken_tokenBody[unfolded Unix_def, simplified] aggregationParam_def)

lemma listFromResourceGroup_in_15_minutes:
  "listFromResourceGroup ''s1'' (clientUntil (Unix 1540000000 0 + 15 * Minute)) (Unix 1540000000 0)
       (Response 200 (Decoded tokenBody)) (Response 200 (Decoded \<lparr>ListValue = []\<rparr>))
     = Some (clientUntil (Unix 1540000000 0 + 15 * Minute), [GetResources ''old''], Inr [])"
  by (simp add: listFromResourceGroup_def refreshToken_def clientUntil_def Add_def After_def
      Minute_def Unix_def)

text \<open>The theorem at these two runs.\<close>

theorem token_refreshed_iff_after_witness:
  "getMetricValue (clientUntil (Unix 1540000000 0 + 5 * Minute)) (Unix 1540000000 0)
       (Response 200 (Decoded tokenBody)) (Response 200 (Decoded (response None))) []
     = Some (\<lparr>accessToken = ''eyJ0eXAi'', accessTokenExpiresOn = Unix 1540003600 0\<rparr>,
             [PostToken, GetMetrics ''eyJ0eXAi'' ''Total,Average,Minimum,Maximum''],
             Inr (response None))
   \<and> listFromResourceGroup ''s1'' (clientUntil (Unix 1540000000 0 + 15 * Minute)) (Unix 1540000000 0)
       (Response 200 (Decoded tokenBody)) (Response 200 (Decoded \<lparr>ListValue = []\<rparr>))
     = Some (clientUntil (Unix 1540000000 0 + 15 * Minute), [GetResources ''old''], Inr [])
   \<and> accessTokenExpiresOn (clientUntil (Unix 1540000000 0 + 5 * Minute)) - 10 * Minute < Unix 1540000000 0
   \<and> \<not> accessTokenExpiresOn (clientUntil (Unix 1540000000 0 + 15 * Minute)) - 10 * Minute < Unix 1540000000 0"
proof -
  note m = getMetricValue_in_5_minutes
  note l = listFromResourceGroup_in_15_minutes
  from token_refreshed_iff_after[where ac = "clientUntil (Unix 1540000000 0 + 5 * Minute)"
      and now = "Unix 1540000000 0" and tokenResp = "Response 200 (Decoded tokenBody)"
      and metricsResp = "Response 200 (Decoded (response None))" and aggregations = "[]"
      and ac' = "\<lparr>accessToken = ''eyJ0eXAi'', accessTokenExpiresOn = Unix 1540003600 0\<rparr>"
      and calls = "[PostToken, GetMetrics ''eyJ0eXAi'' ''Total,Average,Minimum,Maximum'']"
      and r = "Inr (response None)"] m
  have a: "accessTokenExpiresOn (clientUntil (Unix 1540000000 0 + 5 * Minute)) - 10 * Minute < Unix 1540000000 0"
    by simp
  from token_refreshed_iff_after[where subscriptionID = "''s1''"
      and ac = "clientUntil (Unix 1540000000 0 + 15 * Minute)" and now = "Unix 1540000000 0"
      and tokenResp = "Response 200 (Decoded tokenBody)"
      and listResp = "Response 200 (Decoded \<lparr>ListValue = []\<rparr>)"
      and ac'' = "clientUntil (Unix 1540000000 0 + 15 * Minute)"
      and calls' = "[GetResources ''old'']" and r' = "Inr []"] l
  have b: "\<not> accessTokenExpiresOn (clientUntil (Unix 1540000000 0 + 15 * Minute)) - 10 * Minute < Unix 1540000000 0"
    by simp
  from m l a b show ?thesis by blast
qed

text \<open>
  C4 as stated fails at the boundary: ten minutes before the expiry, to the nanosecond,
  \<open>now \<ge> expiry - 10 min\<close> holds, and the metrics query goes out with the old token and
  no refresh, \<^verbatim>\<open>now.After(refreshAt)\<close> being false for equal instants.
\<close>

theorem no_refresh_at_ten_minutes:
  "accessTokenExpiresOn (clientUntil (Unix 1540003600 0)) - 10 * Minute \<le> Unix 1540003000 0
   \<and> getMetricValue (clientUntil (Unix 1540003600 0)) (Unix 1540003000 0)
       (Response 200 (Decoded tokenBody)) (Response 200 (Decoded (response None))) []
     = Some (clientUntil (Unix 1540003600 0),
             [GetMetrics ''old'' ''Total,Average,Minimum,Maximum''], Inr (response None))"
  by (simp add: getMetricValue_def refreshToken_def clientUntil_def Add_def After_def Minute_def
      Unix_def aggregationParam_def)

subsection \<open>Listing the resources of a group\<close>

lemma stripPrefixes_ok:
  "map Id results = map (\<lambda>rel. CHR ''/'' # subscription @ rel) rels \<Longrightarrow>
   stripPrefixes subscription acc results = Some (acc @ rels)"
proof (induction results arbitrary: acc rels)
  case Nil
  then show ?case by simp
next
  case (Cons result results)
  then obtain r rs where rels: "rels = r # rs" by (cases rels) auto
  with Cons.prems have i: "Id result = CHR ''/'' # subscription @ r"
    and rest: "map Id results = map (\<lambda>rel. CHR ''/'' # subscription @ rel) rs" by auto
  from Cons.IH[OF rest, of "acc @ [r]"] show ?case by (simp add: i rels)
qed

text \<open>An identifier shorter than the prefix makes the slice expression panic.\<close>

lemma stripPrefixes_short:
  "length (Id result) \<le> length subscription \<Longrightarrow>
   stripPrefixes subscription acc (result # results) = None"
  by simp

lemma selectResources_all:
  "ResourceInclude target = [] \<Longrightarrow> ResourceExclude target = [] \<Longrightarrow>
   selectResources M target resources = Some resources"
  by (induction resources) (simp_all add: keepResource_eq)

text \<open>
  C8. When the token needs no refresh or the refresh succeeds, and the listing endpoint
  answers 200 with N identifiers that each start with \<^verbatim>\<open>/subscriptions/<subscription-id>\<close>,
  \<^verbatim>\<open>listFromResourceGroup\<close> returns the N identifiers without that prefix, in order, and a
  group with empty include and exclude lists hands all N to \<^verbatim>\<open>collectResource\<close>.
\<close>

theorem listFromResourceGroup_strips_prefix:
  assumes "refreshToken ac now tokenResp = Some (ac', calls, None)"
    and "map Id (ListValue data) = map (\<lambda>rel. ''/subscriptions/'' @ subscriptionID @ rel) rels"
    and "ResourceInclude target = []" and "ResourceExclude target = []"
  shows "listFromResourceGroup subscriptionID ac now tokenResp (Response 200 (Decoded data))
           = Some (ac', calls @ [GetResources (accessToken ac')], Inr rels)
         \<and> length rels = length (ListValue data)
         \<and> selectResources M target rels = Some rels"
proof -
  have "map Id (ListValue data)
          = map (\<lambda>rel. CHR ''/'' # (''subscriptions/'' @ subscriptionID) @ rel) rels"
    using assms(2) by simp
  then have s: "stripPrefixes (''subscriptions/'' @ subscriptionID) [] (ListValue data) = Some ([] @ rels)"
    by (rule stripPrefixes_ok)
  have l: "length rels = length (ListValue data)"
    using arg_cong[OF assms(2), of length] by simp
  show ?thesis using s l assms(1) selectResources_all[OF assms(3,4)]
    by (simp add: listFromResourceGroup_def)
qed

text \<open>The theorem at a listing of two sites of subscription \<^verbatim>\<open>s1\<close>.\<close>

theorem listFromResourceGroup_strips_prefix_witness:
  "listFromResourceGroup ''s1'' (clientUntil (Unix 1540000000 0 + 15 * Minute)) (Unix 1540000000 0)
       TransportError
       (Response 200 (Decoded \<lparr>ListValue =
          [listed (''/subscriptions/s1'' @ site ''web-prod''), listed (''/subscriptions/s1'' @ site ''db-prod'')]\<rparr>))
     = Some (clientUntil (Unix 1540000000 0 + 15 * Minute), [GetResources ''old''],
             Inr [site ''web-prod'', site ''db-prod''])
   \<and> selectResources MatchLiteral (webGroup\<lparr>ResourceInclude := [], ResourceExclude := []\<rparr>)
        [site ''web-prod'', site ''db-prod''] = Some [site ''web-prod'', site ''db-prod'']"
proof -
  have r: "refreshToken (clientUntil (Unix 1540000000 0 + 15 * Minute)) (Unix 1540000000 0) TransportError
             = Some (clientUntil (Unix 1540000000 0 + 15 * Minute), [], None)"
    by (simp add: refreshToken_def clientUntil_def Add_def After_def Minute_def Unix_def)
  have i: "map Id (ListValue \<lparr>ListValue =
          [listed (''/subscriptions/s1'' @ site ''web-prod''), listed (''/subscriptions/s1'' @ site ''db-prod'')]\<rparr>)
        = map (\<lambda>rel. ''/subscriptions/'' @ ''s1'' @ rel) [site ''web-prod'', site ''db-prod'']"
    by (simp add: listed_def)
  have e: "ResourceInclude (webGroup\<lparr>ResourceInclude := [], ResourceExclude := []\<rparr>) = []"
    "ResourceExclude (webGroup\<lparr>ResourceInclude := [], ResourceExclude := []\<rparr>) = []" by simp_all
  from listFromResourceGroup_strips_prefix[OF r i e, of MatchLiteral]
  show ?thesis by (simp add: clientUntil_def)
qed

subsection \<open>Reloading the configuration\<close>

text \<open>
  C10. \<^verbatim>\<open>ReloadConfig\<close> returns an error and leaves the stored configuration as it was for a
  file that cannot be read, that does not parse (as YAML, or because of unknown fields) or
  that fails validation; it returns no error exactly when the file parses and validates,
  and then the stored configuration is the new one, as a whole.
\<close>
theorem ReloadConfig_atomic:
  "(snd (ReloadConfig compiles sc confFile) \<noteq> None \<longrightarrow> fst (ReloadConfig compiles sc confFile) = sc)
   \<and> (snd (ReloadConfig compiles sc confFile) = None
        \<longleftrightarrow> (\<exists>c. confFile = Yaml c \<and> UnmarshalYAML c = None \<and> Validate compiles c = None))
   \<and> (snd (ReloadConfig compiles sc (Yaml c)) = None \<longrightarrow>
        fst (ReloadConfig compiles sc (Yaml c)) = sc\<lparr>C := c\<rparr>)
   \<and> ReloadConfig compiles sc Unreadable = (sc, Some ErrorReadingConfig)
   \<and> ReloadConfig compiles sc NotYaml = (sc, Some (ErrorParsingConfig None))
   \<and> (Validate compiles c = Some err \<and> UnmarshalYAML c = None \<longrightarrow>
        ReloadConfig compiles sc (Yaml c) = (sc, Some (ErrorValidatingConfig err)))"
  by (auto simp: ReloadConfig_def split: conf_file.splits option.splits)

lemma sampleConfig_valid:
  "UnmarshalYAML (sampleConfig [''Total'']) = None"
  "Validate (\<lambda>rx. True) (sampleConfig [''Total'']) = None"
  by code_simp+

lemma sampleConfig_invalid:
  "UnmarshalYAML (sampleConfig [''Sum'']) = None"
  "Validate (\<lambda>rx. True) (sampleConfig [''Sum'']) = Some (InvalidAggregation ''Sum'')"
  by code_simp+

text \<open>The theorem at a configuration that validates and at one that names an aggregation
  that does not exist.\<close>

theorem ReloadConfig_atomic_witness:
  "ReloadConfig (\<lambda>rx. True) \<lparr>C = sampleConfig []\<rparr> (Yaml (sampleConfig [''Total'']))
     = (\<lparr>C = sampleConfig [''Total'']\<rparr>, None)
   \<and> ReloadConfig (\<lambda>rx. True) \<lparr>C = sampleConfig []\<rparr> (Yaml (sampleConfig [''Sum'']))
     = (\<lparr>C = sampleConfig []\<rparr>, Some (ErrorValidatingConfig (InvalidAggregation ''Sum'')))"
proof -
  have ok: "snd (ReloadConfig (\<lambda>rx. True) \<lparr>C = sampleConfig []\<rparr> (Yaml (sampleConfig [''Total'']))) = None"
    by (simp add: ReloadConfig_def sampleConfig_valid)
  from ReloadConfig_atomic[of "\<lambda>rx. True" "\<lparr>C = sampleConfig []\<rparr>" "Yaml (sampleConfig [''Total''])"
      "sampleConfig [''Total'']"] ok
  have a: "fst (ReloadConfig (\<lambda>rx. True) \<lparr>C = sampleConfig []\<rparr> (Yaml (sampleConfig [''Total''])))
            = \<lparr>C = sampleConfig [''Total'']\<rparr>" by simp
  from ReloadConfig_atomic[of "\<lambda>rx. True" "\<lparr>C = sampleConfig []\<rparr>" "Yaml (sampleConfig [''Sum''])"
      "sampleConfig [''Sum'']" "InvalidAggregation ''Sum''"] sampleConfig_invalid
  have b: "ReloadConfig (\<lambda>rx. True) \<lparr>C = sampleConfig []\<rparr> (Yaml (sampleConfig [''Sum'']))
     = (\<lparr>C = sampleConfig []\<rparr>, Some (ErrorValidatingConfig (InvalidAggregation ''Sum'')))" by simp
  from a ok b show ?thesis by (simp add: prod_eq_iff)
qed

end
